theory Spec2Isabelle
  imports Main "HOL-Library.AList"
begin

section \<open>JavaScript strings and values\<close>

text \<open>
  Strings are \<^typ>\<open>string\<close> (lists of 8-bit characters); a character outside ASCII
  stands as the bytes of its UTF-8 encoding. Numbers are the integers among JavaScript's
  numbers (\<^typ>\<open>int\<close>): status codes, page numbers, identifiers and rule types are all
  integers, and no function below does arithmetic on them. They are printed in decimal
  digits, which is what \<^verbatim>\<open>String\<close> and \<^verbatim>\<open>JSON.stringify\<close> give for an integer of
  magnitude below ten to the power 21; from there on JavaScript prints an exponent.
\<close>

text \<open>\<^verbatim>\<open>String.prototype.includes\<close>: \<open>sub\<close> occurs somewhere in \<open>s\<close>.\<close>

fun str_includes :: "string \<Rightarrow> string \<Rightarrow> bool" where
  "str_includes [] sub = (sub = [])"
| "str_includes (c # cs) sub = (take (length sub) (c # cs) = sub \<or> str_includes cs sub)"

text \<open>\<^verbatim>\<open>Array.prototype.join\<close> on an array of strings.\<close>

fun join_strings :: "string \<Rightarrow> string list \<Rightarrow> string" where
  "join_strings sep [] = []"
| "join_strings sep [s] = s"
| "join_strings sep (s # t # ts) = s @ sep @ join_strings sep (t # ts)"

text \<open>Decimal rendering of an integer, as \<^verbatim>\<open>String(n)\<close> gives it.\<close>

definition digit_char :: "nat \<Rightarrow> char" where
  "digit_char d = ''0123456789'' ! d"

fun show_nat :: "nat \<Rightarrow> string" where
  "show_nat n = (if n < 10 then [digit_char n] else show_nat (n div 10) @ [digit_char (n mod 10)])"

declare show_nat.simps [simp del]

definition show_int :: "int \<Rightarrow> string" where
  "show_int i = (if i < 0 then ''-'' @ show_nat (nat (- i)) else show_nat (nat i))"

text \<open>
  A JSON value, which is what a response body decodes to. \<open>undefined\<close> is not a JSON
  value: where the source can see it (an absent body, a missing property) the model has
  an optional value with \<open>None\<close> for \<open>undefined\<close>. An object is the list of its own
  properties in the order \<^verbatim>\<open>Object.entries\<close> enumerates them.
\<close>

datatype json =
    JNull
  | JBool bool
  | JNum int
  | JStr string
  | JArr "json list"
  | JObj "(string \<times> json) list"

text \<open>An \<^verbatim>\<open>Error\<close> instance: its \<^verbatim>\<open>name\<close> and its \<^verbatim>\<open>message\<close>.\<close>

datatype js_error = JsError (err_name: string) (err_message: string)

text \<open>Truthiness, as \<^verbatim>\<open>if (v)\<close> and \<^verbatim>\<open>!v\<close> test it.\<close>

fun is_truthy :: "json \<Rightarrow> bool" where
  "is_truthy JNull = False"
| "is_truthy (JBool b) = b"
| "is_truthy (JNum n) = (n \<noteq> 0)"
| "is_truthy (JStr s) = (s \<noteq> [])"
| "is_truthy (JArr xs) = True"
| "is_truthy (JObj kvs) = True"

text \<open>
  \<^verbatim>\<open>ToString\<close>, as a template literal applies it to an interpolated value, and
  \<^verbatim>\<open>Array.prototype.join\<close>, which renders \<open>null\<close> elements as the empty string.
\<close>

fun to_text :: "json \<Rightarrow> string" where
  "to_text JNull = ''null''"
| "to_text (JBool b) = (if b then ''true'' else ''false'')"
| "to_text (JNum n) = show_int n"
| "to_text (JStr s) = s"
| "to_text (JArr xs) = join_strings '','' (map (\<lambda>x. if x = JNull then [] else to_text x) xs)"
| "to_text (JObj kvs) = ''[object Object]''"

definition Array_join :: "string \<Rightarrow> json list \<Rightarrow> string" where
  "Array_join sep xs = join_strings sep (map (\<lambda>x. if x = JNull then [] else to_text x) xs)"

text \<open>
  \<^verbatim>\<open>JSON.stringify\<close> of a JSON value: the quotation mark, the backslash and the control
  characters of a string are escaped, nothing else is.
\<close>

definition hex_digit :: "nat \<Rightarrow> char" where
  "hex_digit d = ''0123456789abcdef'' ! d"

definition escape_char :: "char \<Rightarrow> string" where
  "escape_char c =
     (if c = CHR 0x22 then [CHR 0x5C, CHR 0x22]
      else if c = CHR 0x5C then [CHR 0x5C, CHR 0x5C]
      else if c = CHR 0x08 then [CHR 0x5C, CHR ''b'']
      else if c = CHR 0x0C then [CHR 0x5C, CHR ''f'']
      else if c = CHR 0x0A then [CHR 0x5C, CHR ''n'']
      else if c = CHR 0x0D then [CHR 0x5C, CHR ''r'']
      else if c = CHR 0x09 then [CHR 0x5C, CHR ''t'']
      else if (of_char c :: nat) < 32
        then [CHR 0x5C, CHR ''u'', CHR ''0'', CHR ''0'',
              hex_digit ((of_char c :: nat) div 16), hex_digit ((of_char c :: nat) mod 16)]
      else [c])"

definition quote :: "string \<Rightarrow> string" where
  "quote s = [CHR 0x22] @ concat (map escape_char s) @ [CHR 0x22]"

fun JSON_stringify :: "json \<Rightarrow> string" where
  "JSON_stringify JNull = ''null''"
| "JSON_stringify (JBool b) = (if b then ''true'' else ''false'')"
| "JSON_stringify (JNum n) = show_int n"
| "JSON_stringify (JStr s) = quote s"
| "JSON_stringify (JArr xs) = ''['' @ join_strings '','' (map JSON_stringify xs) @ '']''"
| "JSON_stringify (JObj kvs) =
     ''{'' @ join_strings '','' (map (\<lambda>kv. quote (fst kv) @ '':'' @ JSON_stringify (snd kv)) kvs) @ ''}''"


section \<open>Error classifier (\<^verbatim>\<open>services/paperless-api.ts\<close>)\<close>

text \<open>
  \<^verbatim>\<open>class PaperlessApiError\<close>: the message, the optional HTTP status code and the optional
  response body (\<open>None\<close> is \<open>undefined\<close>).
\<close>

record PaperlessApiError =
  message :: string
  statusCode :: "int option"
  responseBody :: "json option"

text \<open>
  What a \<^verbatim>\<open>catch\<close> clause can receive: an instance of the class above, another
  \<^verbatim>\<open>Error\<close>, or a value that is no \<^verbatim>\<open>Error\<close> at all.
\<close>

datatype thrown =
    ThrownApiError PaperlessApiError
  | ThrownError js_error
  | ThrownValue json

text \<open>
  Reading one of the properties \<open>detail\<close>, \<open>error\<close>, \<open>non_field_errors\<close> of a value that is
  not \<open>null\<close>: an object answers with its own property, and no primitive, array or
  prototype has a property of these names (\<open>None\<close> is \<open>undefined\<close>).
\<close>

fun get_prop :: "json \<Rightarrow> string \<Rightarrow> json option" where
  "get_prop (JObj kvs) k = map_of kvs k"
| "get_prop v k = None"

text \<open>The \<open>length\<close> property of a value that is neither \<open>null\<close> nor \<open>undefined\<close>.\<close>

fun length_prop :: "json \<Rightarrow> json option" where
  "length_prop (JStr s) = Some (JNum (int (length s)))"
| "length_prop (JArr xs) = Some (JNum (int (length xs)))"
| "length_prop (JObj kvs) = map_of kvs ''length''"
| "length_prop v = None"

text \<open>
  \<^verbatim>\<open>Object.entries\<close>: the own properties of an object; the indexed elements of an array
  and the indexed characters of a string; nothing for a number or a boolean.
\<close>

fun Object_entries :: "json \<Rightarrow> (string \<times> json) list" where
  "Object_entries (JObj kvs) = kvs"
| "Object_entries (JArr xs) = zip (map show_nat [0..<length xs]) xs"
| "Object_entries (JStr s) = zip (map show_nat [0..<length s]) (map (\<lambda>c. JStr [c]) s)"
| "Object_entries v = []"

fun isArray :: "json \<Rightarrow> bool" where
  "isArray (JArr xs) = True"
| "isArray v = False"

fun isString :: "json \<Rightarrow> bool" where
  "isString (JStr s) = True"
| "isString v = False"

text \<open>The two \<^verbatim>\<open>TypeError\<close>s the extraction can raise, with the engine's wording (V8).\<close>

definition null_read_error :: js_error where
  "null_read_error =
     JsError ''TypeError''
       (''Cannot read properties of null (reading '' @ [CHR 0x27] @ ''detail'' @ [CHR 0x27] @ '')'')"

definition join_call_error :: js_error where
  "join_call_error = JsError ''TypeError'' ''error.non_field_errors.join is not a function''"

text \<open>\<^verbatim>\<open>if (error.detail) return error.detail\<close>: the property when it is truthy.\<close>

definition truthy_prop :: "json \<Rightarrow> string \<Rightarrow> json option" where
  "truthy_prop error k =
     (case get_prop error k of
        None \<Rightarrow> None
      | Some v \<Rightarrow> if is_truthy v then Some v else None)"

text \<open>
  \<^verbatim>\<open>error.non_field_errors?.length\<close>: \<open>undefined\<close> when the property is \<open>undefined\<close> or
  \<open>null\<close>, its \<open>length\<close> otherwise.
\<close>

definition non_field_errors_length :: "json \<Rightarrow> json option" where
  "non_field_errors_length error =
     (case get_prop error ''non_field_errors'' of
        None \<Rightarrow> None
      | Some JNull \<Rightarrow> None
      | Some v \<Rightarrow> length_prop v)"

text \<open>
  \<^verbatim>\<open>error.non_field_errors.join(", ")\<close>: an array is joined; any other value has no
  callable \<open>join\<close>, and the call raises.
\<close>

definition non_field_errors_join :: "json \<Rightarrow> js_error + json" where
  "non_field_errors_join error =
     (case get_prop error ''non_field_errors'' of
        Some (JArr xs) \<Rightarrow> Inr (JStr (Array_join '', '' xs))
      | _ \<Rightarrow> Inl join_call_error)"

text \<open>The field-specific errors: \<^verbatim>\<open>Object.entries(error).filter(...).filter(...).map(...)\<close>.\<close>

definition fieldErrors :: "json \<Rightarrow> string list" where
  "fieldErrors error =
     map (\<lambda>(key, v). key @ '': '' @ (case v of JArr xs \<Rightarrow> Array_join '', '' xs | _ \<Rightarrow> to_text v))
       (filter (\<lambda>(key, v). isArray v \<or> isString v)
         (filter (\<lambda>(key, v). key \<notin> set [''detail'', ''error'', ''non_field_errors''])
           (Object_entries error)))"

text \<open>
  The second half of \<^verbatim>\<open>parseErrorResponse\<close>, from \<^verbatim>\<open>const error = body as ApiErrorResponse\<close>
  on. The cast checks nothing: \<open>error\<close> is whatever JSON value the body is.
\<close>

definition parse_error_shapes :: "json \<Rightarrow> js_error + json" where
  "parse_error_shapes error =
     (if error = JNull then Inl null_read_error
      else case truthy_prop error ''detail'' of
        Some d \<Rightarrow> Inr d
      | None \<Rightarrow>
         (case truthy_prop error ''error'' of
            Some e \<Rightarrow> Inr e
          | None \<Rightarrow>
             (case non_field_errors_length error of
                Some n \<Rightarrow> if is_truthy n then non_field_errors_join error
                          else if fieldErrors error \<noteq> [] then Inr (JStr (join_strings ''; '' (fieldErrors error)))
                          else Inr (JStr (JSON_stringify error))
              | None \<Rightarrow> if fieldErrors error \<noteq> [] then Inr (JStr (join_strings ''; '' (fieldErrors error)))
                         else Inr (JStr (JSON_stringify error)))))"

text \<open>
  \<^verbatim>\<open>parseErrorResponse(body)\<close>. \<open>parse\<close> is \<^verbatim>\<open>JSON.parse\<close>, which the platform supplies:
  \<open>Inl\<close> is the \<^verbatim>\<open>SyntaxError\<close> it raises. The declared result type is \<open>string\<close>, but a
  truthy \<open>detail\<close> or \<open>error\<close> is returned as it is, whatever its type.
\<close>

definition parseErrorResponse :: "(string \<Rightarrow> js_error + json) \<Rightarrow> json option \<Rightarrow> js_error + json" where
  "parseErrorResponse parse body =
     (case body of
        None \<Rightarrow> Inr (JStr ''Unknown error'')
      | Some b \<Rightarrow>
          if \<not> is_truthy b then Inr (JStr ''Unknown error'')
          else (case b of
                  JStr s \<Rightarrow> (case parse s of
                               Inl e \<Rightarrow> Inr (JStr s)
                             | Inr parsed \<Rightarrow> parse_error_shapes parsed)
                | _ \<Rightarrow> parse_error_shapes b))"

text \<open>\<^verbatim>\<open>formatHttpError(status, body)\<close>: the detail is extracted first, for every status.\<close>

definition formatHttpError :: "(string \<Rightarrow> js_error + json) \<Rightarrow> int \<Rightarrow> json option \<Rightarrow> js_error + string" where
  "formatHttpError parse status body =
     (case parseErrorResponse parse body of
        Inl e \<Rightarrow> Inl e
      | Inr detail \<Rightarrow> Inr
         (if status = 400 then
            ''Bad request: '' @ to_text detail @ ''. Please check your input parameters.''
          else if status = 401 then
            ''Authentication failed. Your PAPERLESS_TOKEN may be invalid or expired. '' @
            ''Please verify the token in your Paperless NGX settings.''
          else if status = 403 then
            ''Permission denied: '' @ to_text detail @
            ''. Your API token may lack the required permissions for this operation.''
          else if status = 404 then
            ''Resource not found. Please verify the ID exists in Paperless NGX.''
          else if status = 409 then
            ''Conflict: '' @ to_text detail @ ''. The resource may have been modified by another user.''
          else if status = 413 then
            ''File too large. Please reduce the file size and try again.''
          else if status = 429 then
            ''Rate limit exceeded. Please wait a moment before making more requests.''
          else if status = 500 \<or> status = 502 \<or> status = 503 \<or> status = 504 then
            ''Paperless server error (HTTP '' @ show_int status @
            ''). The server may be unavailable or overloaded. Please try again later.''
          else
            ''HTTP '' @ show_int status @ '' error: '' @ to_text detail))"


section \<open>Request executor (\<^verbatim>\<open>services/paperless-api.ts\<close>)\<close>

text \<open>
  \<^verbatim>\<open>constants.ts\<close>: the two connection settings, read from the process environment once
  (\<open>None\<close> is an unset variable), and the timeout.
\<close>

record config =
  PAPERLESS_URL :: string
  PAPERLESS_TOKEN :: string

definition strip_trailing_slash :: "string \<Rightarrow> string" where
  "strip_trailing_slash s = (if s \<noteq> [] \<and> last s = CHR ''/'' then butlast s else s)"

definition read_config :: "string option \<Rightarrow> string option \<Rightarrow> config" where
  "read_config env_url env_token =
     \<lparr>PAPERLESS_URL = strip_trailing_slash (case env_url of None \<Rightarrow> [] | Some s \<Rightarrow> s),
      PAPERLESS_TOKEN = (case env_token of None \<Rightarrow> [] | Some s \<Rightarrow> s)\<rparr>"

definition REQUEST_TIMEOUT_MS :: int where
  "REQUEST_TIMEOUT_MS = 30000"

definition DEFAULT_PAGE_SIZE :: int where
  "DEFAULT_PAGE_SIZE = 25"

definition MAX_PAGE_SIZE :: int where
  "MAX_PAGE_SIZE = 100"

definition api_error :: "string \<Rightarrow> PaperlessApiError" where
  "api_error msg = \<lparr>message = msg, statusCode = None, responseBody = None\<rparr>"

definition url_missing_message :: string where
  "url_missing_message =
     ''PAPERLESS_URL environment variable is not set. '' @
     ''Please configure it with your Paperless NGX server URL (e.g., https://paperless.example.com)''"

text \<open>The arrow of the source text is U+2192, three bytes in UTF-8.\<close>

definition token_missing_message :: string where
  "token_missing_message =
     ''PAPERLESS_TOKEN environment variable is not set. '' @
     ''Please configure it with an API token from your Paperless NGX server. '' @
     ''You can create one in Settings '' @ [CHR 0xE2, CHR 0x86, CHR 0x92] @ '' API Tokens.''"

text \<open>\<^verbatim>\<open>validateConfig()\<close>: \<open>Inl\<close> is the error it throws.\<close>

definition validateConfig :: "config \<Rightarrow> thrown + unit" where
  "validateConfig cfg =
     (if PAPERLESS_URL cfg = [] then Inl (ThrownApiError (api_error url_missing_message))
      else if PAPERLESS_TOKEN cfg = [] then Inl (ThrownApiError (api_error token_missing_message))
      else Inr ())"

text \<open>
  A value of the \<open>params\<close> record. The declared type has no \<open>null\<close>, the test in
  \<^verbatim>\<open>apiRequest\<close> provides for it.
\<close>

datatype param_value =
    PString string
  | PNumber int
  | PBoolean bool
  | PUndefined
  | PNull

fun String_of :: "param_value \<Rightarrow> string" where
  "String_of (PString s) = s"
| "String_of (PNumber n) = show_int n"
| "String_of (PBoolean b) = (if b then ''true'' else ''false'')"
| "String_of PUndefined = ''undefined''"
| "String_of PNull = ''null''"

text \<open>
  A \<^verbatim>\<open>URL\<close> object: the address without its query, and \<^verbatim>\<open>searchParams\<close> as the list of
  name/value pairs it holds. A \<open>params\<close> record is the list of its entries, in the order
  \<^verbatim>\<open>Object.entries\<close> gives them; its keys are distinct.
\<close>

record url =
  href :: string
  searchParams :: "(string \<times> string) list"

text \<open>The \<^verbatim>\<open>forEach\<close> over the entries of \<open>options.params\<close>.\<close>

fun append_params :: "(string \<times> param_value) list \<Rightarrow> url \<Rightarrow> url" where
  "append_params [] u = u"
| "append_params ((key, v) # rest) u =
     append_params rest
       (if v \<noteq> PUndefined \<and> v \<noteq> PNull \<and> v \<noteq> PString []
        then u\<lparr>searchParams := searchParams u @ [(key, String_of v)]\<rparr>
        else u)"

type_synonym FormData = "(string \<times> string) list"

record options =
  params :: "(string \<times> param_value) list option"
  body :: "json option"
  formData :: "FormData option"

datatype request_body = NoBody | FormBody FormData | JsonBody string

record request =
  req_url :: url
  req_method :: string
  req_headers :: "(string \<times> string) list"
  req_body :: request_body
  req_timeout :: int

definition getHeaders :: "config \<Rightarrow> string \<Rightarrow> (string \<times> string) list" where
  "getHeaders cfg contentType =
     [(''Authorization'', ''Token '' @ PAPERLESS_TOKEN cfg),
      (''Content-Type'', contentType),
      (''Accept'', ''application/json'')]"

definition fetchOptions :: "config \<Rightarrow> string \<Rightarrow> options \<Rightarrow> url \<Rightarrow> request" where
  "fetchOptions cfg method opts u =
     \<lparr>req_url = u,
      req_method = method,
      req_headers =
        (case formData opts of
           Some fd \<Rightarrow> [(''Authorization'', ''Token '' @ PAPERLESS_TOKEN cfg), (''Accept'', ''application/json'')]
         | None \<Rightarrow> getHeaders cfg ''application/json''),
      req_body =
        (case formData opts of
           Some fd \<Rightarrow> FormBody fd
         | None \<Rightarrow> (case body opts of Some b \<Rightarrow> JsonBody (JSON_stringify b) | None \<Rightarrow> NoBody)),
      req_timeout = REQUEST_TIMEOUT_MS\<rparr>"

text \<open>
  A \<^verbatim>\<open>Response\<close>: its status, its \<open>content-length\<close> header (\<open>None\<close> when the response has
  none), its body text (\<open>Inl\<close> when reading the body fails, with the error), and what
  \<^verbatim>\<open>response.text().catch(() => null)\<close> gives once \<^verbatim>\<open>response.json()\<close> has failed (\<open>None\<close> is
  \<open>null\<close>: the standard \<^verbatim>\<open>fetch\<close> refuses a second read of the body).
\<close>

record response =
  status :: int
  content_length :: "string option"
  body_text :: "js_error + string"
  text_retry :: "string option"

text \<open>
  The outcome of \<^verbatim>\<open>fetch\<close>: it resolves with a response, or it rejects, and then with an
  \<^verbatim>\<open>Error\<close> (a \<^verbatim>\<open>TypeError\<close> for a network failure, a \<^verbatim>\<open>DOMException\<close> named
  \<open>TimeoutError\<close> or \<open>AbortError\<close> when the signal fires).
\<close>

datatype fetch_result = Rejects js_error | Resolves response

text \<open>
  What the platform supplies: \<^verbatim>\<open>JSON.parse\<close> (\<open>Inl\<close> is the \<^verbatim>\<open>SyntaxError\<close>), the
  \<^verbatim>\<open>URL\<close> constructor (\<open>Inl\<close> is the \<^verbatim>\<open>TypeError\<close> for an invalid address) and \<^verbatim>\<open>fetch\<close>.
\<close>

record platform =
  JSON_parse :: "string \<Rightarrow> js_error + json"
  new_URL :: "string \<Rightarrow> js_error + url"
  fetch :: "request \<Rightarrow> fetch_result"

definition response_ok :: "response \<Rightarrow> bool" where
  "response_ok r = (200 \<le> status r \<and> status r \<le> 299)"

definition response_json :: "platform \<Rightarrow> response \<Rightarrow> js_error + json" where
  "response_json pf r = (case body_text r of Inl e \<Rightarrow> Inl e | Inr s \<Rightarrow> JSON_parse pf s)"

definition timeout_message :: string where
  "timeout_message =
     ''Request timed out after '' @ show_int (REQUEST_TIMEOUT_MS div 1000) @ '' seconds. '' @
     ''The Paperless server may be slow or unreachable.''"

definition unreachable_message :: "config \<Rightarrow> string" where
  "unreachable_message cfg =
     ''Could not connect to Paperless at '' @ PAPERLESS_URL cfg @ ''. '' @
     ''Please verify the URL is correct and the server is running.''"

definition request_failed_message :: "string \<Rightarrow> string" where
  "request_failed_message msg = ''Request failed: '' @ msg"

definition unexpected_message :: string where
  "unexpected_message = ''An unexpected error occurred while communicating with Paperless NGX.''"

text \<open>The \<^verbatim>\<open>catch\<close> clause of \<^verbatim>\<open>apiRequest\<close>: the error it throws in place of the one caught.\<close>

definition handle_caught :: "config \<Rightarrow> thrown \<Rightarrow> PaperlessApiError" where
  "handle_caught cfg error =
     (case error of
        ThrownApiError e \<Rightarrow> e
      | ThrownError e \<Rightarrow>
          if err_name e = ''TimeoutError'' \<or> err_name e = ''AbortError'' then api_error timeout_message
          else if str_includes (err_message e) ''fetch'' \<or> str_includes (err_message e) ''network''
            then api_error (unreachable_message cfg)
          else api_error (request_failed_message (err_message e))
      | ThrownValue v \<Rightarrow> api_error unexpected_message)"

definition success_sentinel :: json where
  "success_sentinel = JObj [(''status'', JStr ''success'')]"

text \<open>The body of the \<^verbatim>\<open>try\<close> block once \<^verbatim>\<open>fetch\<close> has resolved: \<open>Inl\<close> is what it throws.\<close>

definition handle_response :: "platform \<Rightarrow> response \<Rightarrow> thrown + json" where
  "handle_response pf r =
     (if \<not> response_ok r then
        (let errorBody =
               (case response_json pf r of
                  Inr j \<Rightarrow> j
                | Inl e \<Rightarrow> (case text_retry r of Some s \<Rightarrow> JStr s | None \<Rightarrow> JNull))
         in case formatHttpError (JSON_parse pf) (status r) (Some errorBody) of
              Inl e \<Rightarrow> Inl (ThrownError e)
            | Inr msg \<Rightarrow>
                Inl (ThrownApiError
                  \<lparr>message = msg, statusCode = Some (status r), responseBody = Some errorBody\<rparr>))
      else if status r = 204 \<or> content_length r = Some ''0'' then Inr success_sentinel
      else (case response_json pf r of
              Inl e \<Rightarrow> Inl (ThrownError e)
            | Inr j \<Rightarrow> Inr j))"

text \<open>
  \<^verbatim>\<open>apiRequest(method, endpoint, options)\<close>: the requests handed to \<^verbatim>\<open>fetch\<close>, in order, and
  the outcome (\<open>Inl\<close> is what the call throws, \<open>Inr\<close> the value it returns). \<open>with_params\<close> is
  the block \<^verbatim>\<open>if (options.params) { ... }\<close>. The two \<^verbatim>\<open>console.error\<close> lines, which log the
  body, are left out.
\<close>

definition with_params :: "options \<Rightarrow> url \<Rightarrow> url" where
  "with_params opts u = (case params opts of Some ps \<Rightarrow> append_params ps u | None \<Rightarrow> u)"

definition apiRequest ::
  "platform \<Rightarrow> config \<Rightarrow> string \<Rightarrow> string \<Rightarrow> options \<Rightarrow> request list \<times> (thrown + json)" where
  "apiRequest pf cfg method endpoint opts =
     (case validateConfig cfg of
        Inl t \<Rightarrow> ([], Inl t)
      | Inr ok \<Rightarrow>
          (case new_URL pf (PAPERLESS_URL cfg @ endpoint) of
             Inl e \<Rightarrow> ([], Inl (ThrownError e))
           | Inr u \<Rightarrow>
               (let req = fetchOptions cfg method opts (with_params opts u)
                in ([req],
                    (case fetch pf req of
                       Rejects e \<Rightarrow> Inl (ThrownApiError (handle_caught cfg (ThrownError e)))
                     | Resolves r \<Rightarrow>
                         (case handle_response pf r of
                            Inl t \<Rightarrow> Inl (ThrownApiError (handle_caught cfg t))
                          | Inr v \<Rightarrow> Inr v))))))"

section \<open>Saved-view filter compiler (\<^verbatim>\<open>schemas/index.ts\<close>, tool \<open>paperless_execute_saved_view\<close>)\<close>

text \<open>\<^verbatim>\<open>types.ts\<close>: a filter rule and a saved view (\<open>None\<close> is \<open>null\<close>).\<close>

record SavedViewFilterRule =
  rule_type :: int
  rule_value :: "string option"

record PaperlessSavedView =
  view_id :: int
  view_name :: string
  show_on_dashboard :: bool
  show_in_sidebar :: bool
  sort_field :: "string option"
  sort_reverse :: bool
  filter_rules :: "SavedViewFilterRule list option"
  owner :: "int option"

text \<open>
  \<^verbatim>\<open>paginationParams\<close>: the schema gives \<open>page\<close> the default 1 and \<open>page_size\<close> the
  default \<^verbatim>\<open>DEFAULT_PAGE_SIZE\<close>, and refuses (\<open>None\<close>) a value out of range.
\<close>

definition paginationParams :: "int option \<Rightarrow> int option \<Rightarrow> (int \<times> int) option" where
  "paginationParams page page_size =
     (let p = (case page of None \<Rightarrow> 1 | Some x \<Rightarrow> x);
          n = (case page_size of None \<Rightarrow> DEFAULT_PAGE_SIZE | Some x \<Rightarrow> x)
      in if 1 \<le> p \<and> 1 \<le> n \<and> n \<le> MAX_PAGE_SIZE then Some (p, n) else None)"

text \<open>
  One turn of the loop over the filter rules. \<^verbatim>\<open>apiParams[key] = value\<close> replaces the value
  of a key the record has, in place, and adds a key it has not at the end.
\<close>

definition apply_rule ::
  "(string \<times> param_value) list \<Rightarrow> SavedViewFilterRule \<Rightarrow> (string \<times> param_value) list" where
  "apply_rule apiParams rule =
     (case rule_value rule of
        None \<Rightarrow> apiParams
      | Some v \<Rightarrow>
          if rule_type rule = 0 then AList.update ''title__icontains'' (PString v) apiParams
          else if rule_type rule = 3 then AList.update ''correspondent__id'' (PString v) apiParams
          else if rule_type rule = 4 then AList.update ''document_type__id'' (PString v) apiParams
          else if rule_type rule = 6 then AList.update ''tags__id__all'' (PString v) apiParams
          else if rule_type rule = 17 then AList.update ''created__date__gt'' (PString v) apiParams
          else if rule_type rule = 18 then AList.update ''created__date__lt'' (PString v) apiParams
          else apiParams)"

text \<open>
  The query parameters the tool builds from a saved view, between fetching the view and
  fetching the documents.
\<close>

definition saved_view_params ::
  "int \<Rightarrow> int \<Rightarrow> PaperlessSavedView \<Rightarrow> (string \<times> param_value) list" where
  "saved_view_params page page_size view =
     (let apiParams = [(''page'', PNumber page), (''page_size'', PNumber page_size)];
          sorted =
            (case sort_field view of
               None \<Rightarrow> apiParams
             | Some f \<Rightarrow>
                 if f \<noteq> [] then
                   AList.update ''ordering'' (PString ((if sort_reverse view then ''-'' else []) @ f)) apiParams
                 else apiParams)
      in foldl apply_rule sorted (case filter_rules view of None \<Rightarrow> [] | Some rules \<Rightarrow> rules))"


section \<open>Notions used in the statements\<close>

text \<open>
  The \<^verbatim>\<open>switch\<close> of the filter loop as a table: the query parameter a rule type is
  compiled to, \<open>None\<close> for a rule type that has no \<^verbatim>\<open>case\<close>.
\<close>

definition rule_param :: "int \<Rightarrow> string option" where
  "rule_param t =
     (if t = 0 then Some ''title__icontains''
      else if t = 3 then Some ''correspondent__id''
      else if t = 4 then Some ''document_type__id''
      else if t = 6 then Some ''tags__id__all''
      else if t = 17 then Some ''created__date__gt''
      else if t = 18 then Some ''created__date__lt''
      else None)"

text \<open>The rules the loop runs over: \<^verbatim>\<open>view.filter_rules || []\<close>.\<close>

definition view_rules :: "PaperlessSavedView \<Rightarrow> SavedViewFilterRule list" where
  "view_rules view = (case filter_rules view of None \<Rightarrow> [] | Some rules \<Rightarrow> rules)"

text \<open>A rule that compiles to the query parameter \<open>k\<close>: its value is not \<open>null\<close> and its type maps to \<open>k\<close>.\<close>

definition writes_param :: "string \<Rightarrow> SavedViewFilterRule \<Rightarrow> bool" where
  "writes_param k rule = (rule_value rule \<noteq> None \<and> rule_param (rule_type rule) = Some k)"

text \<open>A value of the \<open>params\<close> record that \<^verbatim>\<open>apiRequest\<close> leaves out of the query string.\<close>

definition omitted :: "param_value \<Rightarrow> bool" where
  "omitted v = (v = PUndefined \<or> v = PNull \<or> v = PString [])"

text \<open>
  The message of a configuration error names a setting when it holds the name of its
  environment variable; it identifies the missing settings when it names the ones that
  are empty and no other.
\<close>

definition identifies_missing :: "config \<Rightarrow> PaperlessApiError \<Rightarrow> bool" where
  "identifies_missing cfg e =
     ((str_includes (message e) ''PAPERLESS_URL'' \<longleftrightarrow> PAPERLESS_URL cfg = []) \<and>
      (str_includes (message e) ''PAPERLESS_TOKEN'' \<longleftrightarrow> PAPERLESS_TOKEN cfg = []))"

text \<open>
  The value in which the detail extraction searches the known shapes: the body itself
  when it is truthy and no string, and what the body's text parses to when it is a
  non-empty string that is JSON. There is none for no body, a falsy body (\<open>null\<close>, the
  empty string, 0, \<open>false\<close>) and a string that is not JSON.
\<close>

definition body_value :: "(string \<Rightarrow> js_error + json) \<Rightarrow> json option \<Rightarrow> json option" where
  "body_value parse payload =
     (case payload of
        None \<Rightarrow> None
      | Some b \<Rightarrow>
          if \<not> is_truthy b then None
          else (case b of
                  JStr s \<Rightarrow> (case parse s of Inl e \<Rightarrow> None | Inr j \<Rightarrow> Some j)
                | _ \<Rightarrow> Some b))"

text \<open>
  The values left out of the statements on the detail extraction are those on which the
  search raises a \<^verbatim>\<open>TypeError\<close> or returns a value that is no string: \<open>null\<close>, which only
  the text \<open>null\<close> gives; a value with a \<open>detail\<close> that is truthy and no string; with no
  \<open>detail\<close> string to win, one with an \<open>error\<close> that is truthy and no string; and with
  neither to win, one with a \<open>non_field_errors\<close> that is no list and has a truthy
  \<open>length\<close> (a non-empty string, an object with such a property). Every other value is
  regular, be it an object, an array, a string, a number or a boolean.
\<close>

definition nonempty_string :: "json option \<Rightarrow> string option" where
  "nonempty_string p = (case p of Some (JStr s) \<Rightarrow> if s = [] then None else Some s | _ \<Rightarrow> None)"

definition string_or_falsy :: "json option \<Rightarrow> bool" where
  "string_or_falsy p = (case p of None \<Rightarrow> True | Some v \<Rightarrow> isString v \<or> \<not> is_truthy v)"

definition list_or_lengthless :: "json option \<Rightarrow> bool" where
  "list_or_lengthless p =
     (case p of
        Some (JStr s) \<Rightarrow> s = []
      | Some (JObj kvs) \<Rightarrow> (case map_of kvs ''length'' of None \<Rightarrow> True | Some n \<Rightarrow> \<not> is_truthy n)
      | _ \<Rightarrow> True)"

definition regular_value :: "json \<Rightarrow> bool" where
  "regular_value j =
     (j \<noteq> JNull \<and>
      string_or_falsy (get_prop j ''detail'') \<and>
      (case nonempty_string (get_prop j ''detail'') of
         Some d \<Rightarrow> True
       | None \<Rightarrow>
           string_or_falsy (get_prop j ''error'') \<and>
           (case nonempty_string (get_prop j ''error'') of
              Some e \<Rightarrow> True
            | None \<Rightarrow> list_or_lengthless (get_prop j ''non_field_errors''))))"

text \<open>
  The error bodies the statements on the detail extraction cover: every body but those
  whose searched value is not regular.
\<close>

definition covered_body :: "(string \<Rightarrow> js_error + json) \<Rightarrow> json option \<Rightarrow> bool" where
  "covered_body parse payload =
     (case body_value parse payload of None \<Rightarrow> True | Some j \<Rightarrow> regular_value j)"

text \<open>
  The priority order of the detail extraction, as a chain of matchers on the searched
  value, the first that matches giving the detail: a \<open>detail\<close> string that is not empty;
  an \<open>error\<close> string that is not empty; a \<open>non_field_errors\<close> list that is not empty,
  joined with a comma and a space; the other entries whose value is a string or a list,
  each as \<open>field: value\<close> (a list joined with a comma and a space), joined with a
  semicolon and a space, when there is one; and the serialization of the value when
  nothing matches. The entries are those of \<^verbatim>\<open>Object.entries\<close>: of an array, its elements
  under their indices.
\<close>

definition nonempty_list_joined :: "json option \<Rightarrow> string option" where
  "nonempty_list_joined p =
     (case p of Some (JArr xs) \<Rightarrow> if xs = [] then None else Some (Array_join '', '' xs) | _ \<Rightarrow> None)"

definition field_text :: "json \<Rightarrow> string" where
  "field_text v = (case v of JArr xs \<Rightarrow> Array_join '', '' xs | JStr s \<Rightarrow> s | _ \<Rightarrow> [])"

definition field_pairs :: "json \<Rightarrow> string list" where
  "field_pairs j =
     [k @ '': '' @ field_text v.
        (k, v) \<leftarrow> Object_entries j, k \<noteq> ''detail'', k \<noteq> ''error'', k \<noteq> ''non_field_errors'',
        isString v \<or> isArray v]"

definition joined_fields :: "json \<Rightarrow> string option" where
  "joined_fields j =
     (if field_pairs j = [] then None else Some (join_strings ''; '' (field_pairs j)))"

fun first_match :: "string option list \<Rightarrow> string option" where
  "first_match [] = None"
| "first_match (Some s # ms) = Some s"
| "first_match (None # ms) = first_match ms"

definition value_detail :: "json \<Rightarrow> string" where
  "value_detail j =
     (case first_match
        [nonempty_string (get_prop j ''detail''),
         nonempty_string (get_prop j ''error''),
         nonempty_list_joined (get_prop j ''non_field_errors''),
         joined_fields j] of
        Some s \<Rightarrow> s
      | None \<Rightarrow> JSON_stringify j)"

text \<open>
  The detail of an error body, by that order: the chain on the searched value; the
  string itself for a string that is not JSON; \<open>Unknown error\<close> for no body and for a
  falsy one.
\<close>

definition extracted_detail :: "(string \<Rightarrow> js_error + json) \<Rightarrow> json option \<Rightarrow> string" where
  "extracted_detail parse payload =
     (case body_value parse payload of
        Some j \<Rightarrow> value_detail j
      | None \<Rightarrow>
          (case payload of
             Some (JStr s) \<Rightarrow> if s = [] then ''Unknown error'' else s
           | _ \<Rightarrow> ''Unknown error''))"


subsection \<open>A platform for the examples\<close>

text \<open>
  The closed examples below need a platform. Its parser stands for \<^verbatim>\<open>JSON.parse\<close> on the
  texts the examples give it: it parses the text \<open>null\<close>; it rejects the empty text, with
  the engine's message for it (V8); and it rejects the text \<open>Bad Gateway\<close>, with a message
  no example reads. Its \<^verbatim>\<open>URL\<close> constructor accepts every address and finds no query in
  it, and its \<^verbatim>\<open>fetch\<close> gives the answer it is told to give.
\<close>

definition stub_parse :: "string \<Rightarrow> js_error + json" where
  "stub_parse s =
     (if s = ''null'' then Inr JNull
      else if s = [] then Inl (JsError ''SyntaxError'' ''Unexpected end of JSON input'')
      else Inl (JsError ''SyntaxError'' ''Unexpected token''))"

definition stub_platform :: "fetch_result \<Rightarrow> platform" where
  "stub_platform answer =
     \<lparr>JSON_parse = stub_parse,
      new_URL = (\<lambda>s. Inr \<lparr>href = s, searchParams = []\<rparr>),
      fetch = (\<lambda>q. answer)\<rparr>"

definition example_config :: config where
  "example_config =
     \<lparr>PAPERLESS_URL = ''https://paperless.example.com'', PAPERLESS_TOKEN = ''0123abcd''\<rparr>"

definition no_options :: options where
  "no_options = \<lparr>params = None, body = None, formData = None\<rparr>"

section \<open>The filter compiler: lemmas\<close>

lemma apply_rule_table:
  "apply_rule m r =
     (case (rule_value r, rule_param (rule_type r)) of
        (Some v, Some k) \<Rightarrow> AList.update k (PString v) m
      | _ \<Rightarrow> m)"
  by (simp add: apply_rule_def rule_param_def split: option.splits)

lemma map_of_apply_rule:
  "map_of (apply_rule m r) k =
     (if writes_param k r then map_option PString (rule_value r) else map_of m k)"
  by (auto simp: apply_rule_table writes_param_def update_conv' split: option.splits)

lemma distinct_apply_rule: "distinct (map fst m) \<Longrightarrow> distinct (map fst (apply_rule m r))"
  by (simp add: apply_rule_table distinct_update split: option.splits)

lemma distinct_foldl_apply_rule:
  "distinct (map fst m) \<Longrightarrow> distinct (map fst (foldl apply_rule m rs))"
  by (induction rs arbitrary: m) (simp_all add: distinct_apply_rule)

lemma map_of_foldl_apply_rule:
  "map_of (foldl apply_rule m rs) k =
     (if filter (writes_param k) rs = [] then map_of m k
      else map_option PString (rule_value (last (filter (writes_param k) rs))))"
proof (induction rs rule: rev_induct)
  case Nil
  then show ?case by simp
next
  case (snoc r rs)
  then show ?case
    by (cases "writes_param k r") (simp_all add: map_of_apply_rule)
qed

lemma saved_view_params_fold:
  "saved_view_params p n view =
     foldl apply_rule (saved_view_params p n (view\<lparr>filter_rules := None\<rparr>)) (view_rules view)"
  by (simp add: saved_view_params_def view_rules_def Let_def)

lemma saved_view_params_no_rules:
  "saved_view_params p n (view\<lparr>filter_rules := None\<rparr>) =
     [(''page'', PNumber p), (''page_size'', PNumber n)] @
     (case sort_field view of
        None \<Rightarrow> []
      | Some f \<Rightarrow>
          if f \<noteq> [] then [(''ordering'', PString ((if sort_reverse view then ''-'' else []) @ f))]
          else [])"
  by (simp add: saved_view_params_def Let_def split: option.splits)

lemma saved_view_params_snoc:
  "saved_view_params p n (view\<lparr>filter_rules := Some (rs @ [r])\<rparr>) =
     apply_rule (saved_view_params p n (view\<lparr>filter_rules := Some rs\<rparr>)) r"
  by (simp add: saved_view_params_def Let_def)

lemma distinct_saved_view_params: "distinct (map fst (saved_view_params p n view))"
proof -
  have "distinct (map fst (saved_view_params p n (view\<lparr>filter_rules := None\<rparr>)))"
    by (simp add: saved_view_params_no_rules split: option.splits)
  then show ?thesis
    by (subst saved_view_params_fold) (rule distinct_foldl_apply_rule)
qed

lemma not_writes_ordering: "\<not> writes_param ''ordering'' r"
  by (simp add: writes_param_def rule_param_def)

lemma map_of_ordering:
  "map_of (saved_view_params p n view) ''ordering'' =
     (case sort_field view of
        None \<Rightarrow> None
      | Some f \<Rightarrow>
          if f \<noteq> [] then Some (PString ((if sort_reverse view then ''-'' else []) @ f)) else None)"
proof -
  have "filter (writes_param ''ordering'') (view_rules view) = []"
    by (simp add: not_writes_ordering)
  then have "map_of (saved_view_params p n view) ''ordering'' =
      map_of (saved_view_params p n (view\<lparr>filter_rules := None\<rparr>)) ''ordering''"
    by (subst saved_view_params_fold) (simp add: map_of_foldl_apply_rule)
  then show ?thesis
    by (simp add: saved_view_params_no_rules split: option.splits)
qed

section \<open>The filter compiler: claims\<close>

text \<open>
  Claim C1. Each filter rule is compiled on its own: a rule whose value is not \<open>null\<close> and
  whose \<open>rule_type\<close> is 0, 3, 4, 6, 17 or 18 sets exactly one query parameter
  (\<open>title__icontains\<close>, \<open>correspondent__id\<close>, \<open>document_type__id\<close>, \<open>tags__id__all\<close>,
  \<open>created__date__gt\<close>, \<open>created__date__lt\<close>) to the rule's value and touches no other
  key; a rule of any other type, or with the value \<open>null\<close>, leaves the mapping as it was.
  The mapping compiled for a view with one more rule at the end is the mapping compiled
  without it, after that one step.
\<close>

theorem filter_rule_dispatch:
  "(rule_value r = Some v \<longrightarrow>
      (rule_type r = 0 \<longrightarrow> map_of (apply_rule m r) = (map_of m)(''title__icontains'' \<mapsto> PString v)) \<and>
      (rule_type r = 3 \<longrightarrow> map_of (apply_rule m r) = (map_of m)(''correspondent__id'' \<mapsto> PString v)) \<and>
      (rule_type r = 4 \<longrightarrow> map_of (apply_rule m r) = (map_of m)(''document_type__id'' \<mapsto> PString v)) \<and>
      (rule_type r = 6 \<longrightarrow> map_of (apply_rule m r) = (map_of m)(''tags__id__all'' \<mapsto> PString v)) \<and>
      (rule_type r = 17 \<longrightarrow> map_of (apply_rule m r) = (map_of m)(''created__date__gt'' \<mapsto> PString v)) \<and>
      (rule_type r = 18 \<longrightarrow> map_of (apply_rule m r) = (map_of m)(''created__date__lt'' \<mapsto> PString v)) \<and>
      (rule_type r \<notin> {0, 3, 4, 6, 17, 18} \<longrightarrow> apply_rule m r = m)) \<and>
   (rule_value r = None \<longrightarrow> apply_rule m r = m) \<and>
   saved_view_params p n (view\<lparr>filter_rules := Some (rs @ [r])\<rparr>) =
     apply_rule (saved_view_params p n (view\<lparr>filter_rules := Some rs\<rparr>)) r"
proof -
  have recognized: "map_of (apply_rule m r) = (map_of m)(k \<mapsto> PString v)"
    if "rule_value r = Some v" "rule_param (rule_type r) = Some k" for k
    using that by (simp add: apply_rule_table update_conv')
  have other: "apply_rule m r = m" if "rule_type r \<notin> {0, 3, 4, 6, 17, 18}"
    using that by (simp add: apply_rule_def split: option.splits)
  have null: "apply_rule m r = m" if "rule_value r = None"
    using that by (simp add: apply_rule_def)
  show ?thesis
    using recognized other null saved_view_params_snoc
    by (simp add: rule_param_def)
qed

theorem filter_rule_dispatch_witness:
  "map_of (apply_rule [(''page'', PNumber 1), (''page_size'', PNumber 25)]
      \<lparr>rule_type = 17, rule_value = Some ''2024-01-01''\<rparr>) ''created__date__gt''
     = Some (PString ''2024-01-01'') \<and>
   apply_rule [(''page'', PNumber 1), (''page_size'', PNumber 25)]
      \<lparr>rule_type = 999, rule_value = Some ''x''\<rparr>
     = [(''page'', PNumber 1), (''page_size'', PNumber 25)] \<and>
   apply_rule [(''page'', PNumber 1), (''page_size'', PNumber 25)]
      \<lparr>rule_type = 17, rule_value = None\<rparr>
     = [(''page'', PNumber 1), (''page_size'', PNumber 25)]"
proof -
  let ?m = "[(''page'', PNumber 1), (''page_size'', PNumber 25)]"
  have a: "map_of (apply_rule ?m \<lparr>rule_type = 17, rule_value = Some ''2024-01-01''\<rparr>) =
      (map_of ?m)(''created__date__gt'' \<mapsto> PString ''2024-01-01'')"
    using filter_rule_dispatch [of "\<lparr>rule_type = 17, rule_value = Some ''2024-01-01''\<rparr>" "''2024-01-01''" ?m]
    by simp
  have b: "apply_rule ?m \<lparr>rule_type = 999, rule_value = Some ''x''\<rparr> = ?m"
    using filter_rule_dispatch [of "\<lparr>rule_type = 999, rule_value = Some ''x''\<rparr>" "''x''" ?m]
    by simp
  have c: "apply_rule ?m \<lparr>rule_type = 17, rule_value = None\<rparr> = ?m"
    using filter_rule_dispatch [of "\<lparr>rule_type = 17, rule_value = None\<rparr>" "''x''" ?m]
    by simp
  show ?thesis
    by (simp only: a b c fun_upd_same simp_thms)
qed

text \<open>
  Claim C7. A view sorted by \<open>created\<close>, in reverse, with no filter rules compiles to
  \<open>page\<close>, \<open>page_size\<close> and \<open>ordering = -created\<close>, in this order and nothing else; the
  caller's \<open>page\<close> and \<open>page_size\<close> are 1 and 25 when it gives none. For every view,
  \<open>ordering\<close> is the sort field, after a \<open>-\<close> when \<open>sort_reverse\<close> holds, when the sort
  field is set (neither \<open>null\<close> nor the empty string, which the test \<^verbatim>\<open>if (view.sort_field)\<close>
  treats alike), and there is no \<open>ordering\<close> key when it is not set.
\<close>

theorem saved_view_ordering:
  "(sort_field view = Some ''created'' \<and> sort_reverse view \<and> view_rules view = [] \<longrightarrow>
      saved_view_params p n view =
        [(''page'', PNumber p), (''page_size'', PNumber n), (''ordering'', PString ''-created'')]) \<and>
   paginationParams None None = Some (1, 25) \<and>
   map_of (saved_view_params p n view) ''ordering'' =
     (case sort_field view of
        None \<Rightarrow> None
      | Some f \<Rightarrow>
          if f \<noteq> [] then Some (PString ((if sort_reverse view then ''-'' else []) @ f)) else None)"
proof -
  have "saved_view_params p n view =
      [(''page'', PNumber p), (''page_size'', PNumber n), (''ordering'', PString ''-created'')]"
    if "sort_field view = Some ''created''" "sort_reverse view" "view_rules view = []"
    using that by (simp add: saved_view_params_def view_rules_def Let_def split: option.splits)
  moreover have "paginationParams None None = Some (1, 25)"
    by (simp add: paginationParams_def DEFAULT_PAGE_SIZE_def MAX_PAGE_SIZE_def)
  ultimately show ?thesis
    using map_of_ordering [of p n view] by simp
qed

theorem saved_view_ordering_witness:
  "saved_view_params 1 25
     \<lparr>view_id = 7, view_name = ''Inbox'', show_on_dashboard = True, show_in_sidebar = False,
      sort_field = Some ''created'', sort_reverse = True, filter_rules = Some [], owner = None\<rparr>
   = [(''page'', PNumber 1), (''page_size'', PNumber 25), (''ordering'', PString ''-created'')]"
proof -
  let ?view = "\<lparr>view_id = 7, view_name = ''Inbox'', show_on_dashboard = True, show_in_sidebar = False,
      sort_field = Some ''created'', sort_reverse = True, filter_rules = Some [], owner = None\<rparr>"
  have "sort_field ?view = Some ''created'' \<and> sort_reverse ?view \<and> view_rules ?view = []"
    by (simp add: view_rules_def)
  then show ?thesis
    using saved_view_ordering [of ?view 1 25] by blast
qed

text \<open>
  Claim C8. When one rule or more of a view compile to the query parameter \<open>k\<close>, the
  compiled mapping holds for \<open>k\<close> the value of the last of them in stored order; and
  the keys of the compiled mapping are distinct, whatever the rules are.
\<close>

theorem last_rule_wins:
  assumes "filter (writes_param k) (view_rules view) \<noteq> []"
  shows "map_of (saved_view_params p n view) k =
           map_option PString (rule_value (last (filter (writes_param k) (view_rules view)))) \<and>
         rule_value (last (filter (writes_param k) (view_rules view))) \<noteq> None \<and>
         distinct (map fst (saved_view_params p n view))"
proof -
  let ?cs = "filter (writes_param k) (view_rules view)"
  have "last ?cs \<in> set ?cs"
    using assms by (rule last_in_set)
  then have "writes_param k (last ?cs)"
    by simp
  then have "rule_value (last ?cs) \<noteq> None"
    by (simp add: writes_param_def)
  moreover have "map_of (saved_view_params p n view) k = map_option PString (rule_value (last ?cs))"
    using assms by (subst saved_view_params_fold) (simp add: map_of_foldl_apply_rule)
  ultimately show ?thesis
    by (simp add: distinct_saved_view_params)
qed

theorem last_rule_wins_witness:
  "map_of (saved_view_params 1 25
     \<lparr>view_id = 7, view_name = ''Inbox'', show_on_dashboard = True, show_in_sidebar = False,
      sort_field = None, sort_reverse = False,
      filter_rules = Some [\<lparr>rule_type = 17, rule_value = Some ''2023-01-01''\<rparr>,
                           \<lparr>rule_type = 0, rule_value = Some ''invoice''\<rparr>,
                           \<lparr>rule_type = 17, rule_value = Some ''2024-01-01''\<rparr>,
                           \<lparr>rule_type = 17, rule_value = None\<rparr>],
      owner = None\<rparr>) ''created__date__gt''
   = Some (PString ''2024-01-01'')"
proof -
  let ?view = "\<lparr>view_id = 7, view_name = ''Inbox'', show_on_dashboard = True, show_in_sidebar = False,
      sort_field = None, sort_reverse = False,
      filter_rules = Some [\<lparr>rule_type = 17, rule_value = Some ''2023-01-01''\<rparr>,
                           \<lparr>rule_type = 0, rule_value = Some ''invoice''\<rparr>,
                           \<lparr>rule_type = 17, rule_value = Some ''2024-01-01''\<rparr>,
                           \<lparr>rule_type = 17, rule_value = None\<rparr>],
      owner = None\<rparr>"
  have cs: "filter (writes_param ''created__date__gt'') (view_rules ?view) =
      [\<lparr>rule_type = 17, rule_value = Some ''2023-01-01''\<rparr>,
       \<lparr>rule_type = 17, rule_value = Some ''2024-01-01''\<rparr>]"
    by (simp add: view_rules_def writes_param_def rule_param_def)
  then have "filter (writes_param ''created__date__gt'') (view_rules ?view) \<noteq> []"
    by simp
  from last_rule_wins [OF this, of 1 25] show ?thesis
    by (simp add: cs)
qed

section \<open>The request executor: lemmas\<close>

lemma searchParams_append_params:
  "searchParams (append_params ps u) =
     searchParams u @ map (\<lambda>(k, v). (k, String_of v)) (filter (\<lambda>(k, v). \<not> omitted v) ps)"
  by (induction ps u rule: append_params.induct) (simp_all add: omitted_def)

lemma href_append_params: "href (append_params ps u) = href u"
  by (induction ps u rule: append_params.induct) simp_all

lemma filter_key_distinct:
  "distinct (map fst ps) \<Longrightarrow> (k, v) \<in> set ps \<Longrightarrow> filter (\<lambda>p. fst p = k) ps = [(k, v)]"
proof (induction ps)
  case Nil
  then show ?case by simp
next
  case (Cons p ps)
  show ?case
  proof (cases "p = (k, v)")
    case True
    with Cons.prems have "k \<notin> fst ` set ps" by simp
    then have "filter (\<lambda>p. fst p = k) ps = []"
      by (auto simp: filter_empty_conv)
    with True show ?thesis by simp
  next
    case False
    with Cons.prems have in_ps: "(k, v) \<in> set ps" and d: "distinct (map fst ps)"
      and "fst p \<notin> fst ` set ps"
      by auto
    then have "fst p \<noteq> k" by (metis fst_conv imageI)
    with Cons.IH [OF d in_ps] show ?thesis by simp
  qed
qed

lemma pairs_named:
  assumes "distinct (map fst ps)" "(k, v) \<in> set ps"
  shows "filter (\<lambda>p. fst p = k)
           (map (\<lambda>(k, v). (k, String_of v)) (filter (\<lambda>(k, v). \<not> omitted v) ps)) =
         (if omitted v then [] else [(k, String_of v)])"
proof -
  have "filter (\<lambda>p. fst p = k)
          (map (\<lambda>(k, v). (k, String_of v)) (filter (\<lambda>(k, v). \<not> omitted v) ps)) =
        map (\<lambda>(k, v). (k, String_of v))
          (filter (\<lambda>(k, v). \<not> omitted v) (filter (\<lambda>p. fst p = k) ps))"
    by (induction ps) auto
  also have "filter (\<lambda>p. fst p = k) ps = [(k, v)]"
    using assms by (rule filter_key_distinct)
  finally show ?thesis by simp
qed

lemma map_of_single_pair:
  "filter (\<lambda>p. fst p = k) qs = [(k, x)] \<Longrightarrow> map_of qs k = Some x"
  by (induction qs) (auto split: if_splits)

lemma apiRequest_requests:
  assumes "validateConfig cfg = Inr ()" "new_URL pf (PAPERLESS_URL cfg @ endpoint) = Inr u"
  shows "fst (apiRequest pf cfg method endpoint opts) =
           [fetchOptions cfg method opts (with_params opts u)]"
  using assms by (simp add: apiRequest_def Let_def)

lemma apiRequest_rejected:
  assumes "validateConfig cfg = Inr ()" "new_URL pf (PAPERLESS_URL cfg @ endpoint) = Inr u"
    and "fetch pf (fetchOptions cfg method opts (with_params opts u)) = Rejects e"
  shows "snd (apiRequest pf cfg method endpoint opts) =
           Inl (ThrownApiError (handle_caught cfg (ThrownError e)))"
  using assms by (simp add: apiRequest_def Let_def)

lemma apiRequest_resolved:
  assumes "validateConfig cfg = Inr ()" "new_URL pf (PAPERLESS_URL cfg @ endpoint) = Inr u"
    and "fetch pf (fetchOptions cfg method opts (with_params opts u)) = Resolves r"
  shows "snd (apiRequest pf cfg method endpoint opts) =
           (case handle_response pf r of
              Inl t \<Rightarrow> Inl (ThrownApiError (handle_caught cfg t))
            | Inr v \<Rightarrow> Inr v)"
  using assms by (simp add: apiRequest_def Let_def)

lemma validateConfig_example: "validateConfig example_config = Inr ()"
  by (simp add: validateConfig_def example_config_def)

lemma apiRequest_stub:
  "snd (apiRequest (stub_platform (Rejects e)) example_config method endpoint no_options) =
     Inl (ThrownApiError (handle_caught example_config (ThrownError e)))"
  "snd (apiRequest (stub_platform (Resolves r)) example_config method endpoint no_options) =
     (case handle_response (stub_platform (Resolves r)) r of
        Inl t \<Rightarrow> Inl (ThrownApiError (handle_caught example_config t))
      | Inr v \<Rightarrow> Inr v)"
  by (simp_all add: apiRequest_def Let_def validateConfig_example stub_platform_def)

lemma url_message_names:
  "str_includes url_missing_message ''PAPERLESS_URL''"
  "\<not> str_includes url_missing_message ''PAPERLESS_TOKEN''"
  by (simp_all add: url_missing_message_def)

lemma token_message_names:
  "str_includes token_missing_message ''PAPERLESS_TOKEN''"
  "\<not> str_includes token_missing_message ''PAPERLESS_URL''"
  by (simp_all add: token_missing_message_def)

lemma timeout_message_text:
  "timeout_message =
     ''Request timed out after 30 seconds. The Paperless server may be slow or unreachable.''"
  by (simp add: timeout_message_def REQUEST_TIMEOUT_MS_def show_int_def show_nat.simps digit_char_def)

lemma transport_messages_distinct:
  "timeout_message \<noteq> unreachable_message cfg"
  "timeout_message \<noteq> request_failed_message m"
  "unreachable_message cfg \<noteq> request_failed_message m"
  by (simp_all add: timeout_message_text unreachable_message_def request_failed_message_def)

lemma api_error_fields:
  "statusCode x = None \<Longrightarrow> responseBody x = None \<Longrightarrow> message x = m \<Longrightarrow> x = api_error m"
  by (cases x) (simp add: api_error_def)

text \<open>
  The last branch of the \<^verbatim>\<open>catch\<close> clause, for a caught value that is no \<^verbatim>\<open>Error\<close>: no
  rejection of \<^verbatim>\<open>fetch\<close> and no statement of the \<^verbatim>\<open>try\<close> block throws one.
\<close>

lemma handle_caught_value: "handle_caught cfg (ThrownValue v) = api_error unexpected_message"
  by (simp add: handle_caught_def)

text \<open>
  A successful response with an empty body and no \<open>content-length\<close> header \<open>0\<close> is
  decoded, and the decoding error is what the \<^verbatim>\<open>try\<close> block throws.
\<close>

lemma handle_response_empty_body:
  assumes "JSON_parse pf [] = Inl e" "response_ok r" "status r \<noteq> 204"
    "content_length r \<noteq> Some ''0''" "body_text r = Inr []"
  shows "handle_response pf r = Inl (ThrownError e)"
  using assms by (simp add: handle_response_def response_json_def)

text \<open>
  What the guard does: a successful response whose status is 204, or whose
  \<open>content-length\<close> header is \<open>0\<close>, is not decoded, and the success sentinel
  \<^verbatim>\<open>{ status: "success" }\<close> is returned for it.
\<close>

lemma handle_response_sentinel:
  "response_ok r \<Longrightarrow> status r = 204 \<or> content_length r = Some ''0'' \<Longrightarrow>
     handle_response pf r = Inr success_sentinel"
  by (auto simp: handle_response_def)

lemma apiRequest_sentinel:
  assumes "validateConfig cfg = Inr ()" "new_URL pf (PAPERLESS_URL cfg @ endpoint) = Inr u"
    and "fetch pf (fetchOptions cfg method opts (with_params opts u)) = Resolves r"
    and "response_ok r" "status r = 204 \<or> content_length r = Some ''0''"
  shows "snd (apiRequest pf cfg method endpoint opts) = Inr success_sentinel"
  using assms by (simp add: apiRequest_resolved handle_response_sentinel)

section \<open>The request executor: claims\<close>

text \<open>
  Claim C2. Let the \<open>params\<close> record have the entry \<open>k: v\<close> (its keys are distinct). The
  loop over the record adds no pair named \<open>k\<close> to the query string when \<open>v\<close> is
  \<open>undefined\<close>, \<open>null\<close> or the empty string, and exactly the pair of \<open>k\<close> and \<open>String(v)\<close>
  otherwise. So, the address having no query of its own, \<open>k\<close> is absent from the query
  string in the first case and present with the value \<open>String(v)\<close> in the second. The URL
  of the request \<^verbatim>\<open>apiRequest\<close> hands to \<^verbatim>\<open>fetch\<close> is the one this loop gives.
\<close>

theorem query_string_of_params:
  assumes "distinct (map fst ps)" "(k, v) \<in> set ps"
  shows "filter (\<lambda>p. fst p = k) (searchParams (append_params ps u)) =
           filter (\<lambda>p. fst p = k) (searchParams u) @ (if omitted v then [] else [(k, String_of v)]) \<and>
         (searchParams u = [] \<longrightarrow>
            (if v = PUndefined \<or> v = PNull \<or> v = PString []
             then k \<notin> fst ` set (searchParams (append_params ps u))
             else map_of (searchParams (append_params ps u)) k = Some (String_of v))) \<and>
         (validateConfig cfg = Inr () \<and> new_URL pf (PAPERLESS_URL cfg @ endpoint) = Inr u \<and>
          params opts = Some ps \<longrightarrow>
            map req_url (fst (apiRequest pf cfg method endpoint opts)) = [append_params ps u])"
proof -
  have named: "filter (\<lambda>p. fst p = k) (searchParams (append_params ps u)) =
      filter (\<lambda>p. fst p = k) (searchParams u) @ (if omitted v then [] else [(k, String_of v)])"
    by (simp add: searchParams_append_params pairs_named [OF assms])
  have empty: "(if v = PUndefined \<or> v = PNull \<or> v = PString []
             then k \<notin> fst ` set (searchParams (append_params ps u))
             else map_of (searchParams (append_params ps u)) k = Some (String_of v))"
    if "searchParams u = []"
  proof (cases "omitted v")
    case True
    with named that have "filter (\<lambda>p. fst p = k) (searchParams (append_params ps u)) = []"
      by simp
    then have "k \<notin> fst ` set (searchParams (append_params ps u))"
      by (auto simp: filter_empty_conv)
    with True show ?thesis by (simp add: omitted_def)
  next
    case False
    with named that
    have "filter (\<lambda>p. fst p = k) (searchParams (append_params ps u)) = [(k, String_of v)]"
      by simp
    then have "map_of (searchParams (append_params ps u)) k = Some (String_of v)"
      by (rule map_of_single_pair)
    with False show ?thesis by (simp add: omitted_def)
  qed
  have req: "map req_url (fst (apiRequest pf cfg method endpoint opts)) = [append_params ps u]"
    if "validateConfig cfg = Inr ()" "new_URL pf (PAPERLESS_URL cfg @ endpoint) = Inr u"
      "params opts = Some ps"
    using that by (simp add: apiRequest_requests fetchOptions_def with_params_def)
  show ?thesis
    using named empty req by blast
qed

theorem query_string_of_params_witness:
  "''query'' \<notin> fst ` set (searchParams (append_params
      [(''page'', PNumber 1), (''query'', PString []), (''ordering'', PUndefined),
       (''title__icontains'', PString ''tax'')]
      \<lparr>href = ''https://paperless.example.com/api/documents/'', searchParams = []\<rparr>)) \<and>
   map_of (searchParams (append_params
      [(''page'', PNumber 1), (''query'', PString []), (''ordering'', PUndefined),
       (''title__icontains'', PString ''tax'')]
      \<lparr>href = ''https://paperless.example.com/api/documents/'', searchParams = []\<rparr>)) ''page''
     = Some ''1''"
proof -
  let ?ps = "[(''page'', PNumber 1), (''query'', PString []), (''ordering'', PUndefined),
       (''title__icontains'', PString ''tax'')]"
  let ?u = "\<lparr>href = ''https://paperless.example.com/api/documents/'', searchParams = []\<rparr>"
  have d: "distinct (map fst ?ps)" by simp
  have q: "(''query'', PString []) \<in> set ?ps" by simp
  have p: "(''page'', PNumber 1) \<in> set ?ps" by simp
  have e: "searchParams ?u = []" by simp
  have one: "String_of (PNumber 1) = ''1''"
    by (simp add: show_int_def show_nat.simps digit_char_def)
  note absent = conjunct1 [OF conjunct2 [OF query_string_of_params [OF d q, of ?u]], rule_format, OF e]
  note present = conjunct1 [OF conjunct2 [OF query_string_of_params [OF d p, of ?u]], rule_format, OF e]
  from absent have "''query'' \<notin> fst ` set (searchParams (append_params ?ps ?u))"
    by (simp only: simp_thms if_True)
  moreover from present have "map_of (searchParams (append_params ?ps ?u)) ''page'' = Some ''1''"
    by (simp only: param_value.distinct simp_thms if_False one)
  ultimately show ?thesis by blast
qed

text \<open>
  Claim C9. \<^verbatim>\<open>validateConfig\<close> raises a configuration error when the base address or the
  credential is empty, and \<^verbatim>\<open>apiRequest\<close> then hands no request to \<^verbatim>\<open>fetch\<close> and throws
  that error; it raises nothing when both are present. The message names the first
  missing setting, in the order base address, credential, and says where to get it: an
  empty base address gives the message on \<open>PAPERLESS_URL\<close>, whether the credential is
  empty or not, and an empty credential with a base address present gives the message
  on \<open>PAPERLESS_TOKEN\<close>. Each message names the one setting and not the other, so the
  message identifies exactly the missing setting when one of the two is missing.
\<close>

theorem config_guard:
  "(PAPERLESS_URL cfg = [] \<longrightarrow>
      validateConfig cfg = Inl (ThrownApiError (api_error url_missing_message))) \<and>
   (PAPERLESS_URL cfg \<noteq> [] \<and> PAPERLESS_TOKEN cfg = [] \<longrightarrow>
      validateConfig cfg = Inl (ThrownApiError (api_error token_missing_message))) \<and>
   (PAPERLESS_URL cfg \<noteq> [] \<and> PAPERLESS_TOKEN cfg \<noteq> [] \<longrightarrow> validateConfig cfg = Inr ()) \<and>
   ((PAPERLESS_URL cfg = []) \<noteq> (PAPERLESS_TOKEN cfg = []) \<longrightarrow>
      (\<exists>e. validateConfig cfg = Inl (ThrownApiError e) \<and> identifies_missing cfg e)) \<and>
   (validateConfig cfg = Inl t \<longrightarrow> apiRequest pf cfg method endpoint opts = ([], Inl t)) \<and>
   str_includes url_missing_message ''PAPERLESS_URL'' \<and>
   \<not> str_includes url_missing_message ''PAPERLESS_TOKEN'' \<and>
   str_includes token_missing_message ''PAPERLESS_TOKEN'' \<and>
   \<not> str_includes token_missing_message ''PAPERLESS_URL''"
proof -
  have one: "\<exists>e. validateConfig cfg = Inl (ThrownApiError e) \<and> identifies_missing cfg e"
    if "(PAPERLESS_URL cfg = []) \<noteq> (PAPERLESS_TOKEN cfg = [])"
  proof (cases "PAPERLESS_URL cfg = []")
    case True
    with that have "validateConfig cfg = Inl (ThrownApiError (api_error url_missing_message))"
      and "identifies_missing cfg (api_error url_missing_message)"
      by (simp_all add: validateConfig_def identifies_missing_def api_error_def url_message_names)
    then show ?thesis by blast
  next
    case False
    with that have "validateConfig cfg = Inl (ThrownApiError (api_error token_missing_message))"
      and "identifies_missing cfg (api_error token_missing_message)"
      by (simp_all add: validateConfig_def identifies_missing_def api_error_def token_message_names)
    then show ?thesis by blast
  qed
  have guard: "apiRequest pf cfg method endpoint opts = ([], Inl t)" if "validateConfig cfg = Inl t"
    using that by (simp add: apiRequest_def)
  show ?thesis
    using one guard
    by (simp add: validateConfig_def url_message_names token_message_names)
qed

theorem config_guard_witness:
  "apiRequest
      (stub_platform (Resolves
        \<lparr>status = 200, content_length = None, body_text = Inr ''null'', text_retry = None\<rparr>))
      \<lparr>PAPERLESS_URL = ''https://paperless.example.com'', PAPERLESS_TOKEN = []\<rparr>
      ''GET'' ''/api/documents/'' no_options =
     ([], Inl (ThrownApiError (api_error token_missing_message)))"
proof -
  let ?cfg = "\<lparr>PAPERLESS_URL = ''https://paperless.example.com'', PAPERLESS_TOKEN = []\<rparr>"
  have "PAPERLESS_URL ?cfg \<noteq> [] \<and> PAPERLESS_TOKEN ?cfg = []" by simp
  with config_guard [of ?cfg]
  have v: "validateConfig ?cfg = Inl (ThrownApiError (api_error token_missing_message))"
    by blast
  from config_guard [of ?cfg "ThrownApiError (api_error token_missing_message)"] v
  show ?thesis by blast
qed

text \<open>
  With both settings empty the error is the one on the base address: its message names
  \<open>PAPERLESS_URL\<close> only, though the credential is missing too.
\<close>

theorem config_guard_counterexample:
  "validateConfig \<lparr>PAPERLESS_URL = [], PAPERLESS_TOKEN = []\<rparr> =
     Inl (ThrownApiError (api_error url_missing_message)) \<and>
   \<not> identifies_missing \<lparr>PAPERLESS_URL = [], PAPERLESS_TOKEN = []\<rparr> (api_error url_missing_message)"
  by (simp add: validateConfig_def identifies_missing_def api_error_def url_message_names)

text \<open>
  Claim C3. When \<^verbatim>\<open>fetch\<close> rejects (no response was obtained) with the error \<open>e\<close>,
  \<^verbatim>\<open>apiRequest\<close> throws the error the \<^verbatim>\<open>catch\<close> clause makes of \<open>e\<close>. That error has no
  status code and no response body, and its message is one of three: the timeout
  message when \<open>e\<close> is named \<open>TimeoutError\<close> or \<open>AbortError\<close>; else the message that the
  server could not be reached when the message of \<open>e\<close> mentions \<open>fetch\<close> or \<open>network\<close>;
  else \<open>Request failed:\<close> followed by the message of \<open>e\<close>. The three messages differ from
  one another, whatever the base address and the message of \<open>e\<close> are.
\<close>

theorem transport_failures:
  "statusCode (handle_caught cfg (ThrownError e)) = None \<and>
   responseBody (handle_caught cfg (ThrownError e)) = None \<and>
   message (handle_caught cfg (ThrownError e)) =
     (if err_name e = ''TimeoutError'' \<or> err_name e = ''AbortError'' then timeout_message
      else if str_includes (err_message e) ''fetch'' \<or> str_includes (err_message e) ''network''
        then unreachable_message cfg
      else request_failed_message (err_message e)) \<and>
   timeout_message \<noteq> unreachable_message cfg \<and>
   timeout_message \<noteq> request_failed_message m \<and>
   unreachable_message cfg \<noteq> request_failed_message m \<and>
   (validateConfig cfg = Inr () \<and> new_URL pf (PAPERLESS_URL cfg @ endpoint) = Inr u \<and>
    fetch pf (fetchOptions cfg method opts (with_params opts u)) = Rejects e \<longrightarrow>
      snd (apiRequest pf cfg method endpoint opts) =
        Inl (ThrownApiError (handle_caught cfg (ThrownError e))))"
proof -
  have "statusCode (handle_caught cfg (ThrownError e)) = None"
    and "responseBody (handle_caught cfg (ThrownError e)) = None"
    and "message (handle_caught cfg (ThrownError e)) =
     (if err_name e = ''TimeoutError'' \<or> err_name e = ''AbortError'' then timeout_message
      else if str_includes (err_message e) ''fetch'' \<or> str_includes (err_message e) ''network''
        then unreachable_message cfg
      else request_failed_message (err_message e))"
    by (simp_all add: handle_caught_def api_error_def)
  then show ?thesis
    using transport_messages_distinct apiRequest_rejected by blast
qed

theorem transport_failures_witness:
  "snd (apiRequest
      (stub_platform (Rejects (JsError ''TimeoutError'' ''The operation was aborted due to timeout'')))
      example_config ''GET'' ''/api/documents/'' no_options) =
     Inl (ThrownApiError (api_error
       ''Request timed out after 30 seconds. The Paperless server may be slow or unreachable.'')) \<and>
   handle_caught example_config (ThrownError (JsError ''TypeError'' ''fetch failed'')) =
     api_error (''Could not connect to Paperless at https://paperless.example.com. '' @
                ''Please verify the URL is correct and the server is running.'') \<and>
   handle_caught example_config (ThrownError (JsError ''Error'' ''socket hang up'')) =
     api_error ''Request failed: socket hang up''"
proof -
  let ?t = "JsError ''TimeoutError'' ''The operation was aborted due to timeout''"
  let ?f = "JsError ''TypeError'' ''fetch failed''"
  let ?s = "JsError ''Error'' ''socket hang up''"
  let ?pf = "stub_platform (Rejects ?t)"
  let ?u = "\<lparr>href = PAPERLESS_URL example_config @ ''/api/documents/'', searchParams = []\<rparr>"
  have pre: "validateConfig example_config = Inr () \<and>
      new_URL ?pf (PAPERLESS_URL example_config @ ''/api/documents/'') = Inr ?u \<and>
      fetch ?pf (fetchOptions example_config ''GET'' no_options (with_params no_options ?u)) = Rejects ?t"
    by (simp add: validateConfig_example stub_platform_def)
  have a: "snd (apiRequest ?pf example_config ''GET'' ''/api/documents/'' no_options) =
      Inl (ThrownApiError (handle_caught example_config (ThrownError ?t)))"
    using transport_failures [of example_config ?t _ ?pf "''/api/documents/''" ?u "''GET''" no_options] pre
    by blast
  have b: "handle_caught example_config (ThrownError ?t) = api_error timeout_message"
    by (rule api_error_fields) (use transport_failures [of example_config ?t] in simp_all)
  have c: "handle_caught example_config (ThrownError ?f) = api_error (unreachable_message example_config)"
    by (rule api_error_fields) (use transport_failures [of example_config ?f] in simp_all)
  have d: "handle_caught example_config (ThrownError ?s) = api_error (request_failed_message ''socket hang up'')"
    by (rule api_error_fields) (use transport_failures [of example_config ?s] in simp_all)
  show ?thesis
    unfolding a b c d
    by (simp add: timeout_message_text unreachable_message_def request_failed_message_def
        example_config_def)
qed

text \<open>
  Claim C6. A successful response whose status is 204 or whose body has zero length is
  to give the success sentinel and never a decode error; the comment on the guard says
  that it handles empty responses. The guard reads the status and the \<open>content-length\<close>
  header, not the body: the response with the status 200, a body of zero length and no
  \<open>content-length\<close> header (a chunked response, say) is successful and empty, yet it is
  decoded, decoding the empty text fails, and \<^verbatim>\<open>apiRequest\<close> throws the decoding error
  as a failed request.
\<close>

theorem empty_body_decoded:
  "response_ok \<lparr>status = 200, content_length = None, body_text = Inr [], text_retry = None\<rparr> \<and>
   body_text \<lparr>status = 200, content_length = None, body_text = Inr [], text_retry = None\<rparr> = Inr [] \<and>
   handle_response
     (stub_platform (Resolves \<lparr>status = 200, content_length = None, body_text = Inr [], text_retry = None\<rparr>))
     \<lparr>status = 200, content_length = None, body_text = Inr [], text_retry = None\<rparr> =
     Inl (ThrownError (JsError ''SyntaxError'' ''Unexpected end of JSON input'')) \<and>
   snd (apiRequest
     (stub_platform (Resolves \<lparr>status = 200, content_length = None, body_text = Inr [], text_retry = None\<rparr>))
     example_config ''DELETE'' ''/api/documents/5/'' no_options) =
     Inl (ThrownApiError (api_error ''Request failed: Unexpected end of JSON input''))"
proof -
  let ?r = "\<lparr>status = 200, content_length = None, body_text = Inr [], text_retry = None\<rparr>"
  have h: "handle_response (stub_platform (Resolves ?r)) ?r =
      Inl (ThrownError (JsError ''SyntaxError'' ''Unexpected end of JSON input''))"
    by (rule handle_response_empty_body) (simp_all add: stub_platform_def stub_parse_def response_ok_def)
  have "handle_caught example_config (ThrownError (JsError ''SyntaxError'' ''Unexpected end of JSON input'')) =
      api_error ''Request failed: Unexpected end of JSON input''"
    by (simp add: handle_caught_def request_failed_message_def)
  with h show ?thesis
    by (simp add: apiRequest_stub response_ok_def)
qed

section \<open>The error classifier: lemmas\<close>









text \<open>The field-specific errors of the source are the field pairs of the chain.\<close>

lemma fieldErrors_pairs: "fieldErrors j = field_pairs j"
proof -
  have "map (\<lambda>(key, v). key @ '': '' @ (case v of JArr xs \<Rightarrow> Array_join '', '' xs | _ \<Rightarrow> to_text v))
       (filter (\<lambda>(key, v). isArray v \<or> isString v)
         (filter (\<lambda>(key, v). key \<notin> set [''detail'', ''error'', ''non_field_errors'']) es)) =
        [k @ '': '' @ field_text v.
           (k, v) \<leftarrow> es, k \<noteq> ''detail'', k \<noteq> ''error'', k \<noteq> ''non_field_errors'',
           isString v \<or> isArray v]" for es
  proof (induction es)
    case Nil
    then show ?case by simp
  next
    case (Cons kv es)
    obtain k v where kv: "kv = (k, v)" by (cases kv)
    from Cons show ?case
      unfolding kv by (cases v) (auto simp: field_text_def)
  qed
  then show ?thesis by (simp add: fieldErrors_def field_pairs_def)
qed

lemma truthy_prop_string:
  "string_or_falsy (get_prop j k) \<Longrightarrow>
   truthy_prop j k = map_option JStr (nonempty_string (get_prop j k))"
  by (auto simp: string_or_falsy_def truthy_prop_def nonempty_string_def
      split: option.splits json.splits)

lemma non_field_errors_list:
  assumes "list_or_lengthless (get_prop j ''non_field_errors'')"
  shows "(case non_field_errors_length j of
            Some n \<Rightarrow> if is_truthy n then non_field_errors_join j else rest
          | None \<Rightarrow> rest) =
         (case nonempty_list_joined (get_prop j ''non_field_errors'') of
            Some s \<Rightarrow> Inr (JStr s)
          | None \<Rightarrow> rest)"
  using assms
  by (auto simp: list_or_lengthless_def non_field_errors_length_def non_field_errors_join_def
      nonempty_list_joined_def split: option.splits json.splits)

lemma truthy_prop_nonempty_string:
  "nonempty_string (get_prop j k) = Some s \<Longrightarrow> truthy_prop j k = Some (JStr s)"
  by (auto simp: truthy_prop_def nonempty_string_def split: option.splits json.splits if_splits)

lemma parse_error_shapes_regular:
  assumes "regular_value j"
  shows "parse_error_shapes j = Inr (JStr (value_detail j))"
proof -
  from assms have nn: "j \<noteq> JNull"
    by (simp add: regular_value_def)
  show ?thesis
  proof (cases "nonempty_string (get_prop j ''detail'')")
    case (Some d)
    then show ?thesis
      using nn by (simp add: parse_error_shapes_def value_detail_def truthy_prop_nonempty_string)
  next
    case None
    with assms have d: "truthy_prop j ''detail'' = None"
      and se: "string_or_falsy (get_prop j ''error'')"
      by (simp_all add: regular_value_def truthy_prop_string)
    show ?thesis
    proof (cases "nonempty_string (get_prop j ''error'')")
      case (Some e)
      then show ?thesis
        using nn d None
        by (simp add: parse_error_shapes_def value_detail_def truthy_prop_nonempty_string)
    next
      case e: None
      with se have e': "truthy_prop j ''error'' = None"
        by (simp add: truthy_prop_string)
      from assms None e have "list_or_lengthless (get_prop j ''non_field_errors'')"
        by (simp add: regular_value_def)
      note n = non_field_errors_list [OF this]
      let ?rest = "if fieldErrors j \<noteq> []
                   then Inr (JStr (join_strings ''; '' (fieldErrors j)))
                   else Inr (JStr (JSON_stringify j))"
      have "parse_error_shapes j =
          (case non_field_errors_length j of
             Some n \<Rightarrow> if is_truthy n then non_field_errors_join j else ?rest
           | None \<Rightarrow> ?rest)"
        using nn d e' by (simp add: parse_error_shapes_def)
      also have "\<dots> = Inr (JStr (value_detail j))"
        unfolding n using None e
        by (simp add: value_detail_def joined_fields_def fieldErrors_pairs split: option.splits)
      finally show ?thesis .
    qed
  qed
qed

text \<open>
  The values that are not regular are left out for a reason: on each of them the search
  raises, or returns a value that is no string.
\<close>

lemma parse_error_shapes_irregular:
  assumes "\<not> regular_value j"
  shows "\<forall>s. parse_error_shapes j \<noteq> Inr (JStr s)"
proof (cases "j = JNull")
  case True
  then show ?thesis by (simp add: parse_error_shapes_def)
next
  case nn: False
  show ?thesis
  proof (cases "string_or_falsy (get_prop j ''detail'')")
    case False
    then obtain v where "truthy_prop j ''detail'' = Some v" "\<not> isString v"
      by (auto simp: string_or_falsy_def truthy_prop_def split: option.splits)
    then show ?thesis
      using nn by (auto simp: parse_error_shapes_def)
  next
    case sd: True
    show ?thesis
    proof (cases "nonempty_string (get_prop j ''detail'')")
      case (Some d)
      with assms nn sd show ?thesis by (simp add: regular_value_def)
    next
      case None
      with sd have d: "truthy_prop j ''detail'' = None"
        by (simp add: truthy_prop_string)
      show ?thesis
      proof (cases "string_or_falsy (get_prop j ''error'')")
        case False
        then obtain v where "truthy_prop j ''error'' = Some v" "\<not> isString v"
          by (auto simp: string_or_falsy_def truthy_prop_def split: option.splits)
        then show ?thesis
          using nn d by (auto simp: parse_error_shapes_def)
      next
        case se: True
        show ?thesis
        proof (cases "nonempty_string (get_prop j ''error'')")
          case (Some e)
          with assms nn sd None se show ?thesis by (simp add: regular_value_def)
        next
          case e: None
          with se have e': "truthy_prop j ''error'' = None"
            by (simp add: truthy_prop_string)
          from assms nn sd None se e have "\<not> list_or_lengthless (get_prop j ''non_field_errors'')"
            by (simp add: regular_value_def)
          then have "\<exists>n. non_field_errors_length j = Some n \<and> is_truthy n"
            and "non_field_errors_join j = Inl join_call_error"
            by (auto simp: list_or_lengthless_def non_field_errors_length_def non_field_errors_join_def
                split: option.splits json.splits)
          then show ?thesis
            using nn d e' by (auto simp: parse_error_shapes_def)
        qed
      qed
    qed
  qed
qed

lemma parseErrorResponse_searched:
  "body_value parse payload = Some j \<Longrightarrow> parseErrorResponse parse payload = parse_error_shapes j"
  by (auto simp: body_value_def parseErrorResponse_def split: option.splits if_splits json.splits sum.splits)

lemma parseErrorResponse_unsearched:
  "body_value parse payload = None \<Longrightarrow>
     parseErrorResponse parse payload = Inr (JStr (extracted_detail parse payload))"
  by (auto simp: body_value_def parseErrorResponse_def extracted_detail_def
      split: option.splits if_splits json.splits sum.splits)

lemma parseErrorResponse_covered:
  assumes "covered_body parse payload"
  shows "parseErrorResponse parse payload = Inr (JStr (extracted_detail parse payload))"
proof (cases "body_value parse payload")
  case None
  then show ?thesis by (rule parseErrorResponse_unsearched)
next
  case (Some j)
  with assms have "regular_value j"
    by (simp add: covered_body_def)
  with Some show ?thesis
    by (simp add: parseErrorResponse_searched parse_error_shapes_regular extracted_detail_def)
qed

text \<open>
  The bodies covered are exactly those on which \<^verbatim>\<open>parseErrorResponse\<close> returns the string
  the priority order gives.
\<close>

lemma covered_body_exact:
  "covered_body parse payload \<longleftrightarrow>
     parseErrorResponse parse payload = Inr (JStr (extracted_detail parse payload))"
proof
  assume "covered_body parse payload"
  then show "parseErrorResponse parse payload = Inr (JStr (extracted_detail parse payload))"
    by (rule parseErrorResponse_covered)
next
  assume r: "parseErrorResponse parse payload = Inr (JStr (extracted_detail parse payload))"
  show "covered_body parse payload"
  proof (cases "body_value parse payload")
    case None
    then show ?thesis by (simp add: covered_body_def)
  next
    case (Some j)
    with r have "parse_error_shapes j = Inr (JStr (extracted_detail parse payload))"
      by (simp add: parseErrorResponse_searched)
    then have "regular_value j"
      using parse_error_shapes_irregular by blast
    with Some show ?thesis by (simp add: covered_body_def)
  qed
qed



text \<open>
  Whenever \<^verbatim>\<open>formatHttpError\<close> returns a message for the status 401 or 404, it is the
  fixed one; and it returns a message for every status on the bodies covered above.
\<close>

lemma formatHttpError_fixed:
  "formatHttpError parse 401 payload = Inr m \<Longrightarrow>
     m = ''Authentication failed. Your PAPERLESS_TOKEN may be invalid or expired. '' @
         ''Please verify the token in your Paperless NGX settings.''"
  "formatHttpError parse 404 payload = Inr m \<Longrightarrow>
     m = ''Resource not found. Please verify the ID exists in Paperless NGX.''"
  by (auto simp: formatHttpError_def split: sum.splits)

lemma formatHttpError_returns:
  "covered_body parse payload \<Longrightarrow> \<exists>m. formatHttpError parse code payload = Inr m"
  by (simp add: formatHttpError_def parseErrorResponse_covered)

text \<open>
  An error response whose body decodes to an object with a string under
  \<open>non_field_errors\<close>: the extraction raises a \<^verbatim>\<open>TypeError\<close>, the \<^verbatim>\<open>catch\<close> clause of
  \<^verbatim>\<open>apiRequest\<close> takes it for a failed request, and the error thrown has neither the
  message of the status nor the status code.
\<close>

lemma string_non_field_errors_raise:
  "parse_error_shapes (JObj [(''non_field_errors'', JStr ''x'')]) = Inl join_call_error"
  by (simp add: parse_error_shapes_def truthy_prop_def non_field_errors_length_def
      non_field_errors_join_def)

lemma error_response_reported_as_failed_request:
  assumes "validateConfig cfg = Inr ()" "new_URL pf (PAPERLESS_URL cfg @ endpoint) = Inr u"
    and "fetch pf (fetchOptions cfg method opts (with_params opts u)) = Resolves r"
    and "\<not> response_ok r" "body_text r = Inr s"
    and "JSON_parse pf s = Inr (JObj [(''non_field_errors'', JStr ''x'')])"
  shows "snd (apiRequest pf cfg method endpoint opts) =
           Inl (ThrownApiError
             (api_error ''Request failed: error.non_field_errors.join is not a function''))"
proof -
  have "formatHttpError (JSON_parse pf) (status r) (Some (JObj [(''non_field_errors'', JStr ''x'')])) =
      Inl join_call_error"
    by (simp add: formatHttpError_def parseErrorResponse_def string_non_field_errors_raise)
  with assms(4-6) have "handle_response pf r = Inl (ThrownError join_call_error)"
    by (simp add: handle_response_def response_json_def)
  moreover have "handle_caught cfg (ThrownError join_call_error) =
      api_error ''Request failed: error.non_field_errors.join is not a function''"
    by (simp add: handle_caught_def join_call_error_def request_failed_message_def)
  ultimately show ?thesis
    using assms(1-3) by (simp add: apiRequest_resolved)
qed

section \<open>The error classifier: claims\<close>




text \<open>
  Claim C5. The message of \<^verbatim>\<open>formatHttpError\<close> for the status 401, and for 404, is to be
  the same for every body. It is not: the detail is extracted before the status is
  looked at, and for the body \<^verbatim>\<open>{non_field_errors: "x"}\<close> the extraction raises a
  \<^verbatim>\<open>TypeError\<close>, so that no message comes back for 401 or 404, while for no body the
  fixed messages do.
\<close>

theorem status_message_lost:
  "formatHttpError parse 401 (Some (JObj [(''non_field_errors'', JStr ''x'')])) = Inl join_call_error \<and>
   formatHttpError parse 404 (Some (JObj [(''non_field_errors'', JStr ''x'')])) = Inl join_call_error \<and>
   formatHttpError stub_parse 401 (Some (JStr ''null'')) = Inl null_read_error \<and>
   formatHttpError parse 401 None =
     Inr (''Authentication failed. Your PAPERLESS_TOKEN may be invalid or expired. '' @
          ''Please verify the token in your Paperless NGX settings.'') \<and>
   formatHttpError parse 404 None =
     Inr ''Resource not found. Please verify the ID exists in Paperless NGX.''"
proof -
  have raise: "parseErrorResponse parse (Some (JObj [(''non_field_errors'', JStr ''x'')])) =
      Inl join_call_error"
    by (simp add: parseErrorResponse_def string_non_field_errors_raise)
  have null: "parseErrorResponse stub_parse (Some (JStr ''null'')) = Inl null_read_error"
    by (simp add: parseErrorResponse_def stub_parse_def parse_error_shapes_def)
  have none: "parseErrorResponse parse None = Inr (JStr ''Unknown error'')"
    by (simp add: parseErrorResponse_def)
  show ?thesis
    by (simp add: formatHttpError_def raise null none)
qed




end
